theory Spec2Isabelle
  imports Main
begin

section \<open>brauser: a preconfigured HTTP client with retries\<close>

text \<open>
  A shallow embedding of \<^verbatim>\<open>src/brauser.go\<close> and of the second copy of the same package
  in \<^verbatim>\<open>src/unnamed/part_000\<close>. The Go standard library (\<^verbatim>\<open>net/http\<close>,
  \<^verbatim>\<open>net/http/cookiejar\<close>, \<^verbatim>\<open>encoding/json\<close>, \<^verbatim>\<open>io/ioutil\<close>, \<^verbatim>\<open>net/url\<close>) is not part
  of the package: its operations are parameters of the model, collected in the record
  \<open>lib\<close>, and every run-time panic of the package's own code is a value of type \<open>panic\<close>.
\<close>

subsection \<open>Data\<close>

text \<open>
  \<^verbatim>\<open>time.Duration\<close> is a count of nanoseconds. The package only stores, copies and
  compares durations and counters, so they are integers; \<^verbatim>\<open>tryCount++\<close> is only
  reached under \<^verbatim>\<open>tryCount < w.options.Tries\<close> and therefore never wraps.
\<close>

type_synonym Duration = int

definition Second :: Duration where
  "Second = 1000000000"

type_synonym bytes = string

datatype error = Error string

datatype panic = NilDereference | IndexOutOfRange

record Options =
  Timeout :: Duration
  TlsHandshakeTimeout :: Duration
  DialTimeout :: Duration
  Tries :: int
  Verbose :: bool

text \<open>\<^verbatim>\<open>http.Transport\<close> and \<^verbatim>\<open>http.Client\<close>, with the fields the package sets.\<close>

record http_Transport =
  Dial_Timeout :: Duration
  TLSHandshakeTimeout :: Duration

record 'j http_Client =
  Jar :: "'j option"
  Client_Timeout :: Duration
  Transport :: http_Transport

record 'j WebClient =
  cl :: "'j http_Client"
  options :: Options
  lastTimeout :: int

subsection \<open>CreateWebClient\<close>

text \<open>Go's \<^verbatim>\<open>opts[i]\<close>: an index out of range panics.\<close>

definition index :: "'a list \<Rightarrow> nat \<Rightarrow> panic + 'a" where
  "index xs i = (if i < length xs then Inr (xs ! i) else Inl IndexOutOfRange)"

definition default_Options :: Options where
  "default_Options =
     \<lparr>Timeout = Second * 60,
      TlsHandshakeTimeout = 5 * Second,
      DialTimeout = 5 * Second,
      Tries = 1,
      Verbose = False\<rparr>"

text \<open>
  The first argument is what \<^verbatim>\<open>cookiejar.New(nil)\<close> returned: a jar (or nil) and an
  error, which the constructor drops.
\<close>

definition CreateWebClient :: "'j option \<times> error option \<Rightarrow> Options list \<Rightarrow> panic + 'j WebClient" where
  "CreateWebClient new_jar opts =
     (case new_jar of (jar, _) \<Rightarrow>
        (case (if length opts \<noteq> 1 then Inr default_Options else index opts 0) of
           Inl p \<Rightarrow> Inl p
         | Inr opt \<Rightarrow>
             Inr \<lparr>cl = \<lparr>Jar = jar,
                        Client_Timeout = Timeout opt,
                        Transport = \<lparr>Dial_Timeout = DialTimeout opt,
                                     TLSHandshakeTimeout = TlsHandshakeTimeout opt\<rparr>\<rparr>,
                  options = opt,
                  lastTimeout = 0\<rparr>))"

subsection \<open>Requests, responses and the world\<close>

text \<open>
  \<^verbatim>\<open>http.Header\<close> maps a canonical key to the list of its values. It is kept as the
  list of (canonical key, value) pairs in the order they were added, so that the values
  of a key are the pairs with that key, in order. \<^verbatim>\<open>Header.Add\<close> canonicalises the key
  with \<^verbatim>\<open>CanonicalHeaderKey\<close> (a parameter) and appends the value to those of the key.
\<close>

type_synonym Header = "(string \<times> string) list"

definition Header_Add :: "(string \<Rightarrow> string) \<Rightarrow> string \<Rightarrow> string \<Rightarrow> Header \<Rightarrow> Header" where
  "Header_Add canon key val h = h @ [(canon key, val)]"


datatype url = URL (String: string)

record Request =
  Method :: string
  Request_URL :: url
  Request_Header :: Header
  Payload :: "bytes option"

text \<open>
  A response body is what \<^verbatim>\<open>ioutil.ReadAll\<close> will get out of it: the bytes read and the
  error that stopped the read, if any.
\<close>

record Body =
  bytes_read :: bytes
  read_error :: "error option"

record Response =
  StatusCode :: int
  Resp_Body :: Body

definition ioutil_ReadAll :: "Body \<Rightarrow> bytes option \<times> error option" where
  "ioutil_ReadAll b = (Some (bytes_read b), read_error b)"

text \<open>What \<^verbatim>\<open>fmt.Println\<close> is given by \<^verbatim>\<open>logFetch\<close>.\<close>

datatype log_arg = LStr string | LDur Duration | LErr error | LInt int

datatype event =
    EvPrintln "log_arg list"
  | EvDo Request
  | EvSleep Duration
  | EvClose Body

text \<open>
  The world of one run: how many requests have been dispatched, and everything the
  package did that is visible outside, in order.
\<close>

record world =
  calls :: nat
  trace :: "event list"

definition emit :: "event \<Rightarrow> world \<Rightarrow> world" where
  "emit e wd = wd\<lparr>trace := trace wd @ [e]\<rparr>"

text \<open>
  The library operations the package calls. \<open>client_Do\<close> is the transport: the answer
  of \<^verbatim>\<open>http.Client.Do\<close> to its \<open>n\<close>-th call (counted from 0), a response pointer
  (or nil) and an error (or nil), exactly the pair Go returns, and with it the request as
  the call leaves it: \<^verbatim>\<open>Do\<close> is handed a \<^verbatim>\<open>*http.Request\<close> and writes to it (the jar's
  cookies go into its \<^verbatim>\<open>Cookie\<close> header, its body is read).

  A slice of cookies is a \<^verbatim>\<open>[]*http.Cookie\<close>: each element is a cookie or nil. The
  methods of the jar receive the pointer \<^verbatim>\<open>w.cl.Jar\<close>, which is nil when
  \<^verbatim>\<open>cookiejar.New\<close> gave no jar; what a method does with a nil receiver or a nil
  cookie, a panic included, is the library's business. \<^verbatim>\<open>SetCookies\<close> returns the jar as
  it leaves it, also when it panics on the way.
\<close>

record ('j, 'c, 'f) lib =
  http_NewRequest :: "string \<Rightarrow> string \<Rightarrow> bytes option \<Rightarrow> error + Request"
  CanonicalHeaderKey :: "string \<Rightarrow> string"
  client_Do :: "'j http_Client \<Rightarrow> Request \<Rightarrow> nat
    \<Rightarrow> (Response option \<times> error option) \<times> Request"
  url_Parse :: "string \<Rightarrow> error + url"
  jar_Cookies :: "'j option \<Rightarrow> url \<Rightarrow> panic + 'c option list"
  jar_SetCookies :: "'j option \<Rightarrow> url \<Rightarrow> 'c option list \<Rightarrow> panic option \<times> 'j option"
  json_Marshal :: "'c option list \<Rightarrow> error + bytes"
  json_Unmarshal :: "bytes \<Rightarrow> 'c option list \<times> error option"
  ioutil_WriteFile :: "string \<Rightarrow> bytes \<Rightarrow> nat \<Rightarrow> 'f \<Rightarrow> error option \<times> 'f"
  ioutil_ReadFile :: "string \<Rightarrow> 'f \<Rightarrow> error + bytes"

text \<open>
  \<^verbatim>\<open>w.cl.Do(req)\<close>: the event carries the request as it is handed over; the result is
  the answer, the request as the call left it, and the new world.
\<close>

definition Do :: "('j, 'c, 'f) lib \<Rightarrow> 'j http_Client \<Rightarrow> Request \<Rightarrow> world
    \<Rightarrow> ((Response option \<times> error option) \<times> Request) \<times> world" where
  "Do L c req wd = (client_Do L c req (calls wd), emit (EvDo req) (wd\<lparr>calls := calls wd + 1\<rparr>))"

definition time_Sleep :: "Duration \<Rightarrow> world \<Rightarrow> world" where
  "time_Sleep d wd = emit (EvSleep d) wd"

subsection \<open>logFetch and fetch (\<^verbatim>\<open>src/brauser.go\<close>)\<close>

definition logFetch :: "'j WebClient \<Rightarrow> log_arg list \<Rightarrow> world \<Rightarrow> world" where
  "logFetch w s wd = (if Verbose (options w) then emit (EvPrintln s) wd else wd)"

type_synonym fetch_result = "panic + (bytes option \<times> error option)"

text \<open>
  The code from the label \<^verbatim>\<open>retry:\<close> to the end of \<^verbatim>\<open>fetch\<close>. The error is checked
  first; only when it is nil is \<^verbatim>\<open>resp.Body\<close> read (a nil \<^verbatim>\<open>resp\<close> would panic
  there) and its \<^verbatim>\<open>Close\<close> deferred, to run when the function returns. A retry hands
  the same request object to \<^verbatim>\<open>Do\<close> again, in the state the failed call left it in.
\<close>

function retry :: "('j, 'c, 'f) lib \<Rightarrow> 'j WebClient \<Rightarrow> Request \<Rightarrow> int \<Rightarrow> world
    \<Rightarrow> fetch_result \<times> world" where
  "retry L w req tryCount wd =
     (case Do L (cl w) req wd of
        (((resp, Some err), req'), wd1) \<Rightarrow>
          if tryCount < Tries (options w) then
            retry L w req' (tryCount + 1)
              (time_Sleep (Timeout (options w))
                 (logFetch w [LStr ''retry after'', LDur (Timeout (options w)),
                              LStr ''due to call failure,'', LErr err] wd1))
          else (Inr (None, Some err), logFetch w [LStr ''aborting fetch''] wd1)
      | (((resp, None), req'), wd1) \<Rightarrow>
          (case resp of
             None \<Rightarrow> (Inl NilDereference, wd1)
           | Some r \<Rightarrow>
               (case ioutil_ReadAll (Resp_Body r) of
                  (data, err) \<Rightarrow>
                    (Inr (data, err),
                     emit (EvClose (Resp_Body r)) (logFetch w [LInt (StatusCode r)] wd1)))))"
  by pat_completeness auto
termination
  by (relation "measure (\<lambda>(L, w, req, tryCount, wd). nat (Tries (options w) - tryCount))") auto

definition add_params :: "('j, 'c, 'f) lib \<Rightarrow> (string \<times> string) list \<Rightarrow> Request \<Rightarrow> Request" where
  "add_params L params req =
     foldl (\<lambda>r (k, p). r\<lparr>Request_Header := Header_Add (CanonicalHeaderKey L) k p (Request_Header r)\<rparr>)
       req params"

text \<open>
  \<open>params\<close> is the Go map as the list of its entries in the order the \<^verbatim>\<open>range\<close> loop
  visits them (any order; the keys of a map are distinct, a nil map is the empty list).
\<close>

definition fetch :: "('j, 'c, 'f) lib \<Rightarrow> 'j WebClient \<Rightarrow> string \<Rightarrow> string
    \<Rightarrow> (string \<times> string) list \<Rightarrow> bytes option \<Rightarrow> world \<Rightarrow> fetch_result \<times> world" where
  "fetch L w method path params payload wd =
     (case http_NewRequest L method path payload of
        Inl err \<Rightarrow> (Inr (None, Some err), wd)
      | Inr req0 \<Rightarrow>
          (let req = add_params L params req0 in
           retry L w req 0
             (logFetch w [LStr (Method req), LStr ''  '', LStr (String (Request_URL req)),
                          LStr ''  ''] wd)))"

definition Get :: "('j, 'c, 'f) lib \<Rightarrow> 'j WebClient \<Rightarrow> string \<Rightarrow> (string \<times> string) list
    \<Rightarrow> world \<Rightarrow> fetch_result \<times> world" where
  "Get L w path params wd = fetch L w ''GET'' path params None wd"

definition Post :: "('j, 'c, 'f) lib \<Rightarrow> 'j WebClient \<Rightarrow> string \<Rightarrow> (string \<times> string) list
    \<Rightarrow> bytes option \<Rightarrow> world \<Rightarrow> fetch_result \<times> world" where
  "Post L w path params payload wd = fetch L w ''POST'' path params payload wd"

definition CustomRequest :: "('j, 'c, 'f) lib \<Rightarrow> 'j WebClient \<Rightarrow> string \<Rightarrow> string
    \<Rightarrow> (string \<times> string) list \<Rightarrow> bytes option \<Rightarrow> world \<Rightarrow> fetch_result \<times> world" where
  "CustomRequest L w method path params payload wd = fetch L w method path params payload wd"

subsection \<open>fetch in \<^verbatim>\<open>src/unnamed/part_000\<close>\<close>

text \<open>
  Deferred calls run when the function returns or panics, the last deferred first.
  The list holds the bodies whose \<^verbatim>\<open>Close\<close> is pending, the latest at the head.
\<close>

definition run_deferred :: "Body list \<Rightarrow> world \<Rightarrow> world" where
  "run_deferred ds wd = foldl (\<lambda>wd' b. emit (EvClose b) wd') wd ds"

text \<open>
  Here \<^verbatim>\<open>defer resp.Body.Close()\<close> and \<^verbatim>\<open>w.logFetch(resp.StatusCode)\<close> come right after
  \<^verbatim>\<open>w.cl.Do(req)\<close>, inside the retry loop and before the error is looked at. The
  \<^verbatim>\<open>defer\<close> statement evaluates \<^verbatim>\<open>resp.Body\<close> at once, which panics on a nil \<^verbatim>\<open>resp\<close>.
\<close>

function retry_part_000 :: "('j, 'c, 'f) lib \<Rightarrow> 'j WebClient \<Rightarrow> Request \<Rightarrow> int \<Rightarrow> Body list
    \<Rightarrow> world \<Rightarrow> fetch_result \<times> world" where
  "retry_part_000 L w req tryCount ds wd =
     (case Do L (cl w) req wd of
        (((None, err), req'), wd1) \<Rightarrow> (Inl NilDereference, run_deferred ds wd1)
      | (((Some r, Some err), req'), wd1) \<Rightarrow>
          if tryCount < Tries (options w) then
            retry_part_000 L w req' (tryCount + 1) (Resp_Body r # ds)
              (time_Sleep (Timeout (options w))
                 (logFetch w [LStr ''retry after'', LDur (Timeout (options w)),
                              LStr ''due to call failure,'', LErr err]
                    (logFetch w [LInt (StatusCode r)] wd1)))
          else (Inr (None, Some err),
                run_deferred (Resp_Body r # ds) (logFetch w [LInt (StatusCode r)] wd1))
      | (((Some r, None), req'), wd1) \<Rightarrow>
          (case ioutil_ReadAll (Resp_Body r) of
             (data, err) \<Rightarrow>
               (Inr (data, err),
                run_deferred (Resp_Body r # ds) (logFetch w [LInt (StatusCode r)] wd1))))"
  by pat_completeness auto
termination
  by (relation "measure (\<lambda>(L, w, req, tryCount, ds, wd). nat (Tries (options w) - tryCount))") auto

definition fetch_part_000 :: "('j, 'c, 'f) lib \<Rightarrow> 'j WebClient \<Rightarrow> string \<Rightarrow> string
    \<Rightarrow> (string \<times> string) list \<Rightarrow> bytes option \<Rightarrow> world \<Rightarrow> fetch_result \<times> world" where
  "fetch_part_000 L w method path params payload wd =
     (case http_NewRequest L method path payload of
        Inl err \<Rightarrow> (Inr (None, Some err), wd)
      | Inr req0 \<Rightarrow>
          (let req = add_params L params req0 in
           retry_part_000 L w req 0 []
             (logFetch w [LStr (Method req), LStr ''  '', LStr (String (Request_URL req)),
                          LStr ''  ''] wd)))"

subsection \<open>ExportCookies and ImportCookies\<close>

text \<open>
  The jar is reached through the pointer \<^verbatim>\<open>w.cl.Jar\<close>, and \<^verbatim>\<open>SetCookies\<close> changes
  the jar behind it. The file system is the state \<open>fs\<close> of the library's file operations.
  \<^verbatim>\<open>json.Unmarshal\<close> fills the slice it is given and returns an error; the slice is
  returned here with the error, so that what the code does with it on failure shows.

  ImportCookies ends by returning an error (or nil) or by a panic (\<open>Inl\<close>); either way
  the client is left behind with its jar as it then is.
\<close>

definition ExportCookies :: "('j, 'c, 'f) lib \<Rightarrow> 'j WebClient \<Rightarrow> string \<Rightarrow> string \<Rightarrow> 'f
    \<Rightarrow> panic + (error option \<times> 'f)" where
  "ExportCookies L w file site fs =
     (case url_Parse L site of
        Inl err \<Rightarrow> Inr (Some err, fs)
      | Inr u \<Rightarrow>
          (case jar_Cookies L (Jar (cl w)) u of
             Inl p \<Rightarrow> Inl p
           | Inr cookies \<Rightarrow>
               (case json_Marshal L cookies of
                  Inl err \<Rightarrow> Inr (Some err, fs)
                | Inr data \<Rightarrow>
                    (case ioutil_WriteFile L file data 420 fs of
                       (Some err, fs') \<Rightarrow> Inr (Some err, fs')
                     | (None, fs') \<Rightarrow> Inr (None, fs')))))"

definition ImportCookies :: "('j, 'c, 'f) lib \<Rightarrow> 'j WebClient \<Rightarrow> string \<Rightarrow> string \<Rightarrow> 'f
    \<Rightarrow> (panic + error option) \<times> 'j WebClient" where
  "ImportCookies L w file site fs =
     (case url_Parse L site of
        Inl err \<Rightarrow> (Inr (Some err), w)
      | Inr u \<Rightarrow>
          (case ioutil_ReadFile L file fs of
             Inl err \<Rightarrow> (Inr (Some err), w)
           | Inr d \<Rightarrow>
               (case json_Unmarshal L d of
                  (cookies, Some err) \<Rightarrow> (Inr (Some err), w)
                | (cookies, None) \<Rightarrow>
                    (case jar_SetCookies L (Jar (cl w)) u cookies of
                       (Some p, jar') \<Rightarrow> (Inl p, w\<lparr>cl := (cl w)\<lparr>Jar := jar'\<rparr>\<rparr>)
                     | (None, jar') \<Rightarrow> (Inr None, w\<lparr>cl := (cl w)\<lparr>Jar := jar'\<rparr>\<rparr>)))))"

subsection \<open>Reading a trace\<close>

fun is_Println :: "event \<Rightarrow> bool" where
  "is_Println (EvPrintln _) = True"
| "is_Println _ = False"

fun is_Do :: "event \<Rightarrow> bool" where
  "is_Do (EvDo _) = True"
| "is_Do _ = False"

fun is_Sleep :: "event \<Rightarrow> bool" where
  "is_Sleep (EvSleep _) = True"
| "is_Sleep _ = False"

text \<open>The events other than log lines: dispatches, sleeps and closes, in order.\<close>

definition io_events :: "event list \<Rightarrow> event list" where
  "io_events evs = filter (\<lambda>e. \<not> is_Println e) evs"

text \<open>
  The request in the state in which the retry loop hands it to its \<open>i\<close>-th dispatch
  (counted from 0), when it starts with \<open>req\<close> and its first dispatch is the \<open>n\<close>-th
  call of the transport: every failed call passes on the request as it left it.
\<close>

fun resent :: "('j, 'c, 'f) lib \<Rightarrow> 'j http_Client \<Rightarrow> Request \<Rightarrow> nat \<Rightarrow> nat \<Rightarrow> Request" where
  "resent L c req n 0 = req"
| "resent L c req n (Suc i) = resent L c (snd (client_Do L c req n)) (Suc n) i"

subsection \<open>Test doubles\<close>

text \<open>
  A concrete library for running the package on examples: requests are built without
  validation, the transport is a script giving the answer to the \<open>n\<close>-th call and
  leaves the request alone, the jar is the list of its cookies and the file system a list
  of named files. \<^verbatim>\<open>SetCookies\<close> stores the cookies one after the other and panics at a
  nil cookie, keeping what it stored before.
\<close>

definition stub_NewRequest :: "string \<Rightarrow> string \<Rightarrow> bytes option \<Rightarrow> error + Request" where
  "stub_NewRequest method path payload =
     Inr \<lparr>Method = method, Request_URL = URL path, Request_Header = [], Payload = payload\<rparr>"

definition stub_CanonicalHeaderKey :: "string \<Rightarrow> string" where
  "stub_CanonicalHeaderKey k =
     (if k = ''accept'' then ''Accept'' else if k = ''cookie'' then ''Cookie'' else k)"

definition stub_url_Parse :: "string \<Rightarrow> error + url" where
  "stub_url_Parse s =
     (case s of
        CHR '':'' # _ \<Rightarrow> Inl (Error ''missing protocol scheme'')
      | _ \<Rightarrow> Inr (URL s))"

definition stub_Unmarshal :: "bytes \<Rightarrow> string option list \<times> error option" where
  "stub_Unmarshal d =
     (if d = ''[]'' then ([], None)
      else if d = ''[a]'' then ([Some ''a''], None)
      else if d = ''[a,null]'' then ([Some ''a'', None], None)
      else ([], Some (Error ''invalid character'')))"

fun stub_store :: "string list \<Rightarrow> string option list \<Rightarrow> panic option \<times> string list" where
  "stub_store j [] = (None, j)"
| "stub_store j (None # cs) = (Some NilDereference, j)"
| "stub_store j (Some c # cs) = stub_store (j @ [c]) cs"

definition stub_SetCookies :: "string list option \<Rightarrow> url \<Rightarrow> string option list
    \<Rightarrow> panic option \<times> string list option" where
  "stub_SetCookies jar u cs =
     (case jar of
        None \<Rightarrow> (Some NilDereference, None)
      | Some j \<Rightarrow> (case stub_store j cs of (p, j') \<Rightarrow> (p, Some j')))"

definition stub_ReadFile :: "string \<Rightarrow> (string \<times> bytes) list \<Rightarrow> error + bytes" where
  "stub_ReadFile file fs =
     (case map_of fs file of
        None \<Rightarrow> Inl (Error ''no such file or directory'')
      | Some d \<Rightarrow> Inr d)"

definition stub_lib :: "(nat \<Rightarrow> Response option \<times> error option)
    \<Rightarrow> (string list, string, (string \<times> bytes) list) lib" where
  "stub_lib script =
     \<lparr>http_NewRequest = stub_NewRequest,
      CanonicalHeaderKey = stub_CanonicalHeaderKey,
      client_Do = (\<lambda>c req n. (script n, req)),
      url_Parse = stub_url_Parse,
      jar_Cookies =
        (\<lambda>jar u. case jar of None \<Rightarrow> Inl NilDereference | Some j \<Rightarrow> Inr (map Some j)),
      jar_SetCookies = stub_SetCookies,
      json_Marshal = (\<lambda>cs. Inr ''[]''),
      json_Unmarshal = stub_Unmarshal,
      ioutil_WriteFile = (\<lambda>file data perm fs. (None, (file, data) # fs)),
      ioutil_ReadFile = stub_ReadFile\<rparr>"





definition always_fails :: "error \<Rightarrow> nat \<Rightarrow> Response option \<times> error option" where
  "always_fails e n = (None, Some e)"

definition fails_then_answers :: "nat \<Rightarrow> error \<Rightarrow> Response \<Rightarrow> nat \<Rightarrow> Response option \<times> error option" where
  "fails_then_answers k e r n = (if n < k then (None, Some e) else (Some r, None))"

definition client_of :: "Options \<Rightarrow> string list WebClient" where
  "client_of opt =
     \<lparr>cl = \<lparr>Jar = Some [],
             Client_Timeout = Timeout opt,
             Transport = \<lparr>Dial_Timeout = DialTimeout opt,
                          TLSHandshakeTimeout = TlsHandshakeTimeout opt\<rparr>\<rparr>,
      options = opt,
      lastTimeout = 0\<rparr>"

definition client_holding :: "string list \<Rightarrow> Options \<Rightarrow> string list WebClient" where
  "client_holding j opt = (client_of opt)\<lparr>cl := (cl (client_of opt))\<lparr>Jar := Some j\<rparr>\<rparr>"

definition world0 :: world where
  "world0 = \<lparr>calls = 0, trace = []\<rparr>"

section \<open>Properties\<close>

subsection \<open>One step of the retry loop\<close>

declare retry.simps [simp del] retry_part_000.simps [simp del]

lemma trace_emit [simp]: "trace (emit e wd) = trace wd @ [e]"
  and calls_emit [simp]: "calls (emit e wd) = calls wd"
  by (simp_all add: emit_def)

lemma trace_logFetch: "trace (logFetch w s wd) = trace wd @ (if Verbose (options w) then [EvPrintln s] else [])"
  and calls_logFetch [simp]: "calls (logFetch w s wd) = calls wd"
  by (simp_all add: logFetch_def)

lemma io_events_append [simp]: "io_events (xs @ ys) = io_events xs @ io_events ys"
  by (simp add: io_events_def)

lemma io_events_logFetch [simp]: "io_events (trace (logFetch w s wd)) = io_events (trace wd)"
  by (simp add: logFetch_def io_events_def)

lemma trace_time_Sleep [simp]: "trace (time_Sleep d wd) = trace wd @ [EvSleep d]"
  and calls_time_Sleep [simp]: "calls (time_Sleep d wd) = calls wd"
  by (simp_all add: time_Sleep_def)

lemma io_events_single [simp]:
  "io_events [EvDo r] = [EvDo r]" "io_events [EvSleep d] = [EvSleep d]"
  "io_events [EvClose b] = [EvClose b]" "io_events [EvPrintln s] = []"
  by (simp_all add: io_events_def)

lemma retry_failed_again:
  assumes "client_Do L (cl w) req (calls wd) = ((resp, Some e), req')"
    and "tryCount < Tries (options w)"
  shows "retry L w req tryCount wd =
     retry L w req' (tryCount + 1)
       (time_Sleep (Timeout (options w))
          (logFetch w [LStr ''retry after'', LDur (Timeout (options w)),
                       LStr ''due to call failure,'', LErr e]
             (emit (EvDo req) (wd\<lparr>calls := calls wd + 1\<rparr>))))"
  using assms by (subst retry.simps) (simp add: Do_def)

lemma retry_failed_abort:
  assumes "client_Do L (cl w) req (calls wd) = ((resp, Some e), req')"
    and "\<not> tryCount < Tries (options w)"
  shows "retry L w req tryCount wd =
     (Inr (None, Some e),
      logFetch w [LStr ''aborting fetch''] (emit (EvDo req) (wd\<lparr>calls := calls wd + 1\<rparr>)))"
  using assms by (subst retry.simps) (simp add: Do_def)

lemma retry_answered:
  assumes "client_Do L (cl w) req (calls wd) = ((Some r, None), req')"
  shows "retry L w req tryCount wd =
     (Inr (Some (bytes_read (Resp_Body r)), read_error (Resp_Body r)),
      emit (EvClose (Resp_Body r))
        (logFetch w [LInt (StatusCode r)] (emit (EvDo req) (wd\<lparr>calls := calls wd + 1\<rparr>))))"
  using assms by (subst retry.simps) (simp add: Do_def ioutil_ReadAll_def)

lemma retry_nil_response:
  assumes "client_Do L (cl w) req (calls wd) = ((None, None), req')"
  shows "retry L w req tryCount wd = (Inl NilDereference, emit (EvDo req) (wd\<lparr>calls := calls wd + 1\<rparr>))"
  using assms by (subst retry.simps) (simp add: Do_def)

subsection \<open>Runs of the retry loop\<close>

lemma rounds_Suc:
  "concat (map (\<lambda>i. [EvDo (resent L c req n i), EvSleep d]) [0..<Suc k]) =
     EvDo req # EvSleep d #
       concat (map (\<lambda>i. [EvDo (resent L c (snd (client_Do L c req n)) (Suc n) i), EvSleep d]) [0..<k])"
  by (simp add: map_upt_Suc del: upt_Suc)

lemma dispatches_Suc:
  "map (\<lambda>i. EvDo (resent L c req n i)) [0..<Suc k] =
     EvDo req # map (\<lambda>i. EvDo (resent L c (snd (client_Do L c req n)) (Suc n) i)) [0..<k]"
  by (simp add: map_upt_Suc del: upt_Suc)

lemma retry_fails_then_answers:
  assumes "\<forall>i<k. snd (fst (client_Do L (cl w) (resent L (cl w) req (calls wd) i) (calls wd + i))) \<noteq> None"
    and "fst (client_Do L (cl w) (resent L (cl w) req (calls wd) k) (calls wd + k)) = (Some r, None)"
    and "tryCount + int k \<le> Tries (options w)"
  shows "fst (retry L w req tryCount wd) =
           Inr (Some (bytes_read (Resp_Body r)), read_error (Resp_Body r)) \<and>
         calls (snd (retry L w req tryCount wd)) = calls wd + k + 1 \<and>
         io_events (trace (snd (retry L w req tryCount wd))) =
           io_events (trace wd)
             @ concat (map (\<lambda>i. [EvDo (resent L (cl w) req (calls wd) i), EvSleep (Timeout (options w))])
                         [0..<k])
             @ [EvDo (resent L (cl w) req (calls wd) k), EvClose (Resp_Body r)]"
  using assms
proof (induction k arbitrary: tryCount wd req)
  case 0
  then obtain req' where "client_Do L (cl w) req (calls wd) = ((Some r, None), req')"
    by (cases "client_Do L (cl w) req (calls wd)") simp
  then show ?case
    by (simp add: retry_answered)
next
  case (Suc k)
  have "snd (fst (client_Do L (cl w) (resent L (cl w) req (calls wd) 0) (calls wd + 0))) \<noteq> None"
    using Suc.prems(1) by blast
  then obtain resp e req' where failed: "client_Do L (cl w) req (calls wd) = ((resp, Some e), req')"
    by (cases "client_Do L (cl w) req (calls wd)") auto
  from Suc.prems(3) have more: "tryCount < Tries (options w)"
    by simp
  let ?wd = "time_Sleep (Timeout (options w))
          (logFetch w [LStr ''retry after'', LDur (Timeout (options w)),
                       LStr ''due to call failure,'', LErr e]
             (emit (EvDo req) (wd\<lparr>calls := calls wd + 1\<rparr>)))"
  have step: "retry L w req tryCount wd = retry L w req' (tryCount + 1) ?wd"
    by (rule retry_failed_again [OF failed more])
  have c: "calls ?wd = Suc (calls wd)"
    by simp
  have t: "io_events (trace ?wd) = io_events (trace wd) @ [EvDo req, EvSleep (Timeout (options w))]"
    by simp
  have left: "snd (client_Do L (cl w) req (calls wd)) = req'"
    by (simp add: failed)
  have shift: "resent L (cl w) req (calls wd) (Suc i) = resent L (cl w) req' (calls ?wd) i" for i
    by (simp add: left)
  have 1: "\<forall>i<k. snd (fst (client_Do L (cl w) (resent L (cl w) req' (calls ?wd) i) (calls ?wd + i))) \<noteq> None"
  proof (intro allI impI)
    fix i assume "i < k"
    then have "Suc i < Suc k" by simp
    with Suc.prems(1)
    have "snd (fst (client_Do L (cl w) (resent L (cl w) req (calls wd) (Suc i)) (calls wd + Suc i))) \<noteq> None"
      by blast
    then show "snd (fst (client_Do L (cl w) (resent L (cl w) req' (calls ?wd) i) (calls ?wd + i))) \<noteq> None"
      unfolding shift c by simp
  qed
  have 2: "fst (client_Do L (cl w) (resent L (cl w) req' (calls ?wd) k) (calls ?wd + k)) = (Some r, None)"
    using Suc.prems(2) unfolding shift c by simp
  have 3: "tryCount + 1 + int k \<le> Tries (options w)"
    using Suc.prems(3) by simp
  from Suc.IH [OF 1 2 3] show ?case
    unfolding step t rounds_Suc shift left c by simp
qed

lemma retry_fails_throughout:
  assumes "\<forall>i\<le>k. snd (fst (client_Do L (cl w) (resent L (cl w) req (calls wd) i) (calls wd + i))) \<noteq> None"
    and "tryCount + int k = Tries (options w)"
  shows "fst (retry L w req tryCount wd) =
           Inr (None, snd (fst (client_Do L (cl w) (resent L (cl w) req (calls wd) k) (calls wd + k)))) \<and>
         calls (snd (retry L w req tryCount wd)) = calls wd + k + 1 \<and>
         io_events (trace (snd (retry L w req tryCount wd))) =
           io_events (trace wd)
             @ concat (map (\<lambda>i. [EvDo (resent L (cl w) req (calls wd) i), EvSleep (Timeout (options w))])
                         [0..<k])
             @ [EvDo (resent L (cl w) req (calls wd) k)]"
  using assms
proof (induction k arbitrary: tryCount wd req)
  case 0
  then have "snd (fst (client_Do L (cl w) req (calls wd))) \<noteq> None"
    by simp
  then obtain resp e req' where failed: "client_Do L (cl w) req (calls wd) = ((resp, Some e), req')"
    by (cases "client_Do L (cl w) req (calls wd)") auto
  from 0 have "\<not> tryCount < Tries (options w)"
    by simp
  from retry_failed_abort [OF failed this] failed show ?case
    by simp
next
  case (Suc k)
  have "snd (fst (client_Do L (cl w) (resent L (cl w) req (calls wd) 0) (calls wd + 0))) \<noteq> None"
    using Suc.prems(1) by blast
  then obtain resp e req' where failed: "client_Do L (cl w) req (calls wd) = ((resp, Some e), req')"
    by (cases "client_Do L (cl w) req (calls wd)") auto
  from Suc.prems(2) have more: "tryCount < Tries (options w)"
    by simp
  let ?wd = "time_Sleep (Timeout (options w))
          (logFetch w [LStr ''retry after'', LDur (Timeout (options w)),
                       LStr ''due to call failure,'', LErr e]
             (emit (EvDo req) (wd\<lparr>calls := calls wd + 1\<rparr>)))"
  have step: "retry L w req tryCount wd = retry L w req' (tryCount + 1) ?wd"
    by (rule retry_failed_again [OF failed more])
  have c: "calls ?wd = Suc (calls wd)"
    by simp
  have t: "io_events (trace ?wd) = io_events (trace wd) @ [EvDo req, EvSleep (Timeout (options w))]"
    by simp
  have left: "snd (client_Do L (cl w) req (calls wd)) = req'"
    by (simp add: failed)
  have shift: "resent L (cl w) req (calls wd) (Suc i) = resent L (cl w) req' (calls ?wd) i" for i
    by (simp add: left)
  have 1: "\<forall>i\<le>k. snd (fst (client_Do L (cl w) (resent L (cl w) req' (calls ?wd) i) (calls ?wd + i))) \<noteq> None"
  proof (intro allI impI)
    fix i assume "i \<le> k"
    then have "Suc i \<le> Suc k" by simp
    with Suc.prems(1)
    have "snd (fst (client_Do L (cl w) (resent L (cl w) req (calls wd) (Suc i)) (calls wd + Suc i))) \<noteq> None"
      by blast
    then show "snd (fst (client_Do L (cl w) (resent L (cl w) req' (calls ?wd) i) (calls ?wd + i))) \<noteq> None"
      unfolding shift c by simp
  qed
  have 2: "tryCount + 1 + int k = Tries (options w)"
    using Suc.prems(2) by simp
  from Suc.IH [OF 1 2] show ?case
    unfolding step t rounds_Suc shift left c by simp
qed

lemma retry_trace:
  "\<exists>evs k. trace (snd (retry L w req tryCount wd)) = trace wd @ evs \<and>
            filter is_Do evs = map (\<lambda>i. EvDo (resent L (cl w) req (calls wd) i)) [0..<Suc k]"
proof (induction L w req tryCount wd rule: retry.induct)
  case (1 L w req tryCount wd)
  obtain resp err req' where d: "client_Do L (cl w) req (calls wd) = ((resp, err), req')"
    by (cases "client_Do L (cl w) req (calls wd)") auto
  let ?wd1 = "emit (EvDo req) (wd\<lparr>calls := calls wd + 1\<rparr>)"
  have D: "Do L (cl w) req wd = (((resp, err), req'), ?wd1)"
    by (simp add: Do_def d)
  have one: "map (\<lambda>i. EvDo (resent L (cl w) req (calls wd) i)) [0..<Suc 0] = [EvDo req]"
    by simp
  show ?case
  proof (cases err)
    case None
    show ?thesis
    proof (cases resp)
      case None
      with \<open>err = None\<close> d have "retry L w req tryCount wd = (Inl NilDereference, ?wd1)"
        by (simp add: retry_nil_response)
      then have "trace (snd (retry L w req tryCount wd)) = trace wd @ [EvDo req] \<and>
          filter is_Do [EvDo req] = map (\<lambda>i. EvDo (resent L (cl w) req (calls wd) i)) [0..<Suc 0]"
        by simp
      then show ?thesis by blast
    next
      case (Some r)
      with \<open>err = None\<close> d
      have "trace (snd (retry L w req tryCount wd)) =
          trace wd @ (EvDo req # (if Verbose (options w) then [EvPrintln [LInt (StatusCode r)]] else [])
             @ [EvClose (Resp_Body r)])"
        by (simp add: retry_answered trace_logFetch)
      moreover have "filter is_Do (EvDo req # (if Verbose (options w) then [EvPrintln [LInt (StatusCode r)]] else [])
             @ [EvClose (Resp_Body r)]) = map (\<lambda>i. EvDo (resent L (cl w) req (calls wd) i)) [0..<Suc 0]"
        by simp
      ultimately show ?thesis by blast
    qed
  next
    case (Some e)
    show ?thesis
    proof (cases "tryCount < Tries (options w)")
      case False
      with Some d
      have "trace (snd (retry L w req tryCount wd)) =
          trace wd @ (EvDo req # (if Verbose (options w) then [EvPrintln [LStr ''aborting fetch'']] else []))"
        by (simp add: retry_failed_abort trace_logFetch)
      moreover have "filter is_Do (EvDo req # (if Verbose (options w) then [EvPrintln [LStr ''aborting fetch'']] else []))
          = map (\<lambda>i. EvDo (resent L (cl w) req (calls wd) i)) [0..<Suc 0]"
        by simp
      ultimately show ?thesis by blast
    next
      case True
      let ?log = "[LStr ''retry after'', LDur (Timeout (options w)),
                       LStr ''due to call failure,'', LErr e]"
      let ?wd3 = "time_Sleep (Timeout (options w)) (logFetch w ?log ?wd1)"
      from "1.IH" [OF D [symmetric] refl refl Some True]
      obtain evs k where ih: "trace (snd (retry L w req' (tryCount + 1) ?wd3)) = trace ?wd3 @ evs"
          "filter is_Do evs = map (\<lambda>i. EvDo (resent L (cl w) req' (calls ?wd3) i)) [0..<Suc k]"
        by blast
      let ?pre = "EvDo req # (if Verbose (options w) then [EvPrintln ?log] else []) @ [EvSleep (Timeout (options w))]"
      have "trace ?wd3 = trace wd @ ?pre"
        by (simp add: trace_logFetch)
      with ih(1) retry_failed_again [OF d [unfolded Some] True]
      have "trace (snd (retry L w req tryCount wd)) = trace wd @ (?pre @ evs)"
        by simp
      moreover have "filter is_Do (?pre @ evs) =
          map (\<lambda>i. EvDo (resent L (cl w) req (calls wd) i)) [0..<Suc (Suc k)]"
        unfolding dispatches_Suc [of L "cl w" req "calls wd" "Suc k"] using ih(2) d by simp
      ultimately show ?thesis by blast
    qed
  qed
qed

lemma retry_no_panic:
  assumes "\<forall>i. fst (client_Do L (cl w) (resent L (cl w) req (calls wd) i) (calls wd + i)) \<noteq> (None, None)"
  shows "\<exists>data err. fst (retry L w req tryCount wd) = Inr (data, err)"
  using assms
proof (induction L w req tryCount wd rule: retry.induct)
  case (1 L w req tryCount wd)
  obtain resp err req' where d: "client_Do L (cl w) req (calls wd) = ((resp, err), req')"
    by (cases "client_Do L (cl w) req (calls wd)") auto
  let ?wd1 = "emit (EvDo req) (wd\<lparr>calls := calls wd + 1\<rparr>)"
  have D: "Do L (cl w) req wd = (((resp, err), req'), ?wd1)"
    by (simp add: Do_def d)
  have first: "fst (client_Do L (cl w) req (calls wd)) \<noteq> (None, None)"
    using "1.prems" [rule_format, of 0] by simp
  show ?case
  proof (cases err)
    case None
    with d first obtain r where "resp = Some r"
      by (cases resp) auto
    with None d show ?thesis
      by (simp add: retry_answered)
  next
    case (Some e)
    show ?thesis
    proof (cases "tryCount < Tries (options w)")
      case False
      with Some d show ?thesis
        by (simp add: retry_failed_abort)
    next
      case True
      let ?wd3 = "time_Sleep (Timeout (options w))
                (logFetch w [LStr ''retry after'', LDur (Timeout (options w)),
                       LStr ''due to call failure,'', LErr e] ?wd1)"
      have later: "\<forall>i. fst (client_Do L (cl w) (resent L (cl w) req' (calls ?wd3) i) (calls ?wd3 + i))
          \<noteq> (None, None)"
      proof
        fix i
        from "1.prems" [rule_format, of "Suc i"] d
        show "fst (client_Do L (cl w) (resent L (cl w) req' (calls ?wd3) i) (calls ?wd3 + i)) \<noteq> (None, None)"
          by simp
      qed
      from "1.IH" [OF D [symmetric] refl refl Some True later]
      have "\<exists>data err. fst (retry L w req' (tryCount + 1) ?wd3) = Inr (data, err)"
        by blast
      with retry_failed_again [OF d [unfolded Some] True] show ?thesis
        by simp
    qed
  qed
qed

subsection \<open>From the loop to fetch\<close>

lemma fetch_built:
  assumes "http_NewRequest L method path payload = Inr req0"
  shows "fetch L w method path params payload wd =
     retry L w (add_params L params req0) 0
       (logFetch w [LStr (Method (add_params L params req0)), LStr ''  '',
                    LStr (String (Request_URL (add_params L params req0))), LStr ''  ''] wd)"
  using assms by (simp add: fetch_def Let_def)

lemma fetch_extends:
  assumes "http_NewRequest L method path payload = Inr req0"
  shows "\<exists>evs k. trace (snd (fetch L w method path params payload wd)) = trace wd @ evs \<and>
            filter is_Do evs =
              map (\<lambda>i. EvDo (resent L (cl w) (add_params L params req0) (calls wd) i)) [0..<Suc k]"
proof -
  let ?req = "add_params L params req0"
  let ?log = "[LStr (Method ?req), LStr ''  '', LStr (String (Request_URL ?req)), LStr ''  '']"
  let ?pre = "if Verbose (options w) then [EvPrintln ?log] else []"
  obtain evs k where r: "trace (snd (retry L w ?req 0 (logFetch w ?log wd))) = trace (logFetch w ?log wd) @ evs"
      "filter is_Do evs = map (\<lambda>i. EvDo (resent L (cl w) ?req (calls (logFetch w ?log wd)) i)) [0..<Suc k]"
    using retry_trace by blast
  have "trace (snd (fetch L w method path params payload wd)) = trace wd @ (?pre @ evs)"
    using r(1) by (simp add: fetch_built [OF assms] trace_logFetch)
  moreover have "filter is_Do (?pre @ evs) = map (\<lambda>i. EvDo (resent L (cl w) ?req (calls wd) i)) [0..<Suc k]"
    using r(2) by simp
  ultimately show ?thesis
    by blast
qed

lemma new_io_events:
  assumes "trace wd' = trace wd @ evs" and "io_events (trace wd') = io_events (trace wd) @ pat"
  shows "io_events evs = pat"
  using assms by simp

lemma filter_is_Do_io_events: "filter is_Do (io_events evs) = filter is_Do evs"
proof (induction evs)
  case Nil
  show ?case by (simp add: io_events_def)
next
  case (Cons a evs)
  then show ?case by (cases a) (simp_all add: io_events_def)
qed

lemma filter_is_Sleep_io_events: "filter is_Sleep (io_events evs) = filter is_Sleep evs"
proof (induction evs)
  case Nil
  show ?case by (simp add: io_events_def)
next
  case (Cons a evs)
  then show ?case by (cases a) (simp_all add: io_events_def)
qed

lemma filter_is_Do_rounds:
  "filter is_Do (concat (map (\<lambda>i. [EvDo (f i), EvSleep d]) xs) @ rest) =
     map (\<lambda>i. EvDo (f i)) xs @ filter is_Do rest"
  by (induction xs) simp_all

lemma filter_is_Sleep_rounds:
  "filter is_Sleep (concat (map (\<lambda>i. [EvDo (f i), EvSleep d]) xs) @ rest) =
     replicate (length xs) (EvSleep d) @ filter is_Sleep rest"
  by (induction xs) simp_all

lemma client_Do_stub_lib [simp]:
  "fst (client_Do (stub_lib script) c req n) = script n"
  "snd (client_Do (stub_lib script) c req n) = req"
  by (simp_all add: stub_lib_def)

lemma resent_stub_lib [simp]: "resent (stub_lib script) c req n i = req"
  by (induction i arbitrary: n) simp_all

subsection \<open>Properties of the constructor\<close>

text \<open>
  C6: the constructor never fails. Whatever \<^verbatim>\<open>cookiejar.New\<close> returned and whatever
  argument list is passed, it returns a client and does not panic; with no argument the
  client carries the defaults Timeout = 60 s, TlsHandshakeTimeout = 5 s, DialTimeout = 5 s,
  Tries = 1, Verbose = false (a second being 1000000000 ns), also wired into the underlying \<^verbatim>\<open>http.Client\<close>.
\<close>

theorem CreateWebClient_never_fails:
  "(\<exists>w. CreateWebClient new_jar opts = Inr w) \<and>
   (\<exists>w. CreateWebClient new_jar [] = Inr w \<and>
        Timeout (options w) = 60 * Second \<and>
        TlsHandshakeTimeout (options w) = 5 * Second \<and>
        DialTimeout (options w) = 5 * Second \<and>
        Tries (options w) = 1 \<and>
        Verbose (options w) = False \<and>
        Client_Timeout (cl w) = 60 * Second \<and>
        TLSHandshakeTimeout (Transport (cl w)) = 5 * Second \<and>
        Dial_Timeout (Transport (cl w)) = 5 * Second \<and>
        Jar (cl w) = fst new_jar)"
proof -
  obtain jar err where nj: "new_jar = (jar, err)"
    by (cases new_jar)
  have total: "\<exists>w. CreateWebClient new_jar opts = Inr w"
  proof (cases "length opts = 1")
    case True
    then have "index opts 0 = Inr (opts ! 0)"
      by (simp add: index_def)
    with True nj show ?thesis
      by (simp add: CreateWebClient_def)
  next
    case False
    with nj show ?thesis
      by (simp add: CreateWebClient_def)
  qed
  have dflt: "\<exists>w. CreateWebClient new_jar [] = Inr w \<and>
        Timeout (options w) = 60 * Second \<and>
        TlsHandshakeTimeout (options w) = 5 * Second \<and>
        DialTimeout (options w) = 5 * Second \<and>
        Tries (options w) = 1 \<and>
        Verbose (options w) = False \<and>
        Client_Timeout (cl w) = 60 * Second \<and>
        TLSHandshakeTimeout (Transport (cl w)) = 5 * Second \<and>
        Dial_Timeout (Transport (cl w)) = 5 * Second \<and>
        Jar (cl w) = fst new_jar"
    unfolding nj by (simp add: CreateWebClient_def default_Options_def)
  from total dflt show ?thesis
    by blast
qed

text \<open>
  C10: the defaults apply whenever the number of \<^verbatim>\<open>Options\<close> arguments is not exactly
  one. Two or more arguments are all discarded, and the client is the one built from no
  argument at all.
\<close>

theorem CreateWebClient_defaults_unless_one:
  "length opts \<noteq> 1 \<Longrightarrow>
     CreateWebClient new_jar opts = CreateWebClient new_jar [] \<and>
     (\<exists>w. CreateWebClient new_jar opts = Inr w \<and> options w = default_Options)"
  by (cases new_jar) (simp add: CreateWebClient_def)

theorem CreateWebClient_defaults_unless_one_witness:
  "length [\<lparr>Timeout = 1, TlsHandshakeTimeout = 2, DialTimeout = 3, Tries = 7, Verbose = True\<rparr>,
           \<lparr>Timeout = 4, TlsHandshakeTimeout = 5, DialTimeout = 6, Tries = 9, Verbose = True\<rparr>] \<noteq> 1 \<and>
   CreateWebClient (Some (0::nat), None)
      [\<lparr>Timeout = 1, TlsHandshakeTimeout = 2, DialTimeout = 3, Tries = 7, Verbose = True\<rparr>,
       \<lparr>Timeout = 4, TlsHandshakeTimeout = 5, DialTimeout = 6, Tries = 9, Verbose = True\<rparr>]
     = CreateWebClient (Some 0, None) [] \<and>
   (\<exists>w. CreateWebClient (Some (0::nat), None)
      [\<lparr>Timeout = 1, TlsHandshakeTimeout = 2, DialTimeout = 3, Tries = 7, Verbose = True\<rparr>,
       \<lparr>Timeout = 4, TlsHandshakeTimeout = 5, DialTimeout = 6, Tries = 9, Verbose = True\<rparr>] = Inr w \<and>
      options w = default_Options)"
proof -
  let ?opts = "[\<lparr>Timeout = 1, TlsHandshakeTimeout = 2, DialTimeout = 3, Tries = 7, Verbose = True\<rparr>,
       \<lparr>Timeout = 4, TlsHandshakeTimeout = 5, DialTimeout = 6, Tries = 9, Verbose = True\<rparr>]"
  have h: "length ?opts \<noteq> 1"
    by simp
  from CreateWebClient_defaults_unless_one [OF h, of "(Some (0::nat), None)"] h
  show ?thesis
    by blast
qed

subsection \<open>The retry budget\<close>

text \<open>
  C1: with \<^verbatim>\<open>Tries\<close> = N \<ge> 0 and a transport that fails on every attempt, fetch
  dispatches exactly N + 1 times and sleeps exactly N times, each time for \<^verbatim>\<open>Timeout\<close>
  and each time between two dispatches; it returns nil data and the error of the last
  attempt. Each dispatch hands over the request as the call before it left it. The
  scenario with the default \<^verbatim>\<open>Tries\<close> = 1 is the witness.
\<close>

theorem fetch_transport_always_fails:
  assumes "http_NewRequest L method path payload = Inr req0"
    and "0 \<le> Tries (options w)"
    and "\<forall>i. snd (fst (client_Do L (cl w)
                    (resent L (cl w) (add_params L params req0) (calls wd) i) (calls wd + i))) \<noteq> None"
  shows "fst (fetch L w method path params payload wd) =
           Inr (None, snd (fst (client_Do L (cl w)
                  (resent L (cl w) (add_params L params req0) (calls wd) (nat (Tries (options w))))
                  (calls wd + nat (Tries (options w)))))) \<and>
         calls (snd (fetch L w method path params payload wd)) = calls wd + nat (Tries (options w)) + 1 \<and>
         (\<exists>evs. trace (snd (fetch L w method path params payload wd)) = trace wd @ evs \<and>
            io_events evs =
              concat (map (\<lambda>i. [EvDo (resent L (cl w) (add_params L params req0) (calls wd) i),
                                 EvSleep (Timeout (options w))])
                        [0..<nat (Tries (options w))])
                @ [EvDo (resent L (cl w) (add_params L params req0) (calls wd) (nat (Tries (options w))))] \<and>
            length (filter is_Do evs) = nat (Tries (options w)) + 1 \<and>
            filter is_Sleep evs = replicate (nat (Tries (options w))) (EvSleep (Timeout (options w))))"
proof -
  let ?req = "add_params L params req0"
  let ?N = "nat (Tries (options w))"
  let ?wd0 = "logFetch w [LStr (Method ?req), LStr ''  '', LStr (String (Request_URL ?req)), LStr ''  ''] wd"
  let ?out = "fetch L w method path params payload wd"
  let ?at = "resent L (cl w) ?req (calls wd)"
  have eq: "?out = retry L w ?req 0 ?wd0"
    by (rule fetch_built [OF assms(1)])
  have 1: "\<forall>i\<le>?N. snd (fst (client_Do L (cl w) (resent L (cl w) ?req (calls ?wd0) i) (calls ?wd0 + i))) \<noteq> None"
    using assms(3) by simp
  have 2: "0 + int ?N = Tries (options w)"
    using assms(2) by simp
  have run: "fst ?out = Inr (None, snd (fst (client_Do L (cl w) (?at ?N) (calls wd + ?N))))"
      "calls (snd ?out) = calls wd + ?N + 1"
      "io_events (trace (snd ?out)) = io_events (trace wd) @
         concat (map (\<lambda>i. [EvDo (?at i), EvSleep (Timeout (options w))]) [0..<?N]) @ [EvDo (?at ?N)]"
    using retry_fails_throughout [OF 1 2] unfolding eq by simp_all
  obtain evs k where evs: "trace (snd ?out) = trace wd @ evs"
    using fetch_extends [OF assms(1)] by blast
  have io: "io_events evs =
      concat (map (\<lambda>i. [EvDo (?at i), EvSleep (Timeout (options w))]) [0..<?N]) @ [EvDo (?at ?N)]"
    by (rule new_io_events [OF evs run(3)])
  have "filter is_Do (io_events evs) = map (\<lambda>i. EvDo (?at i)) [0..<?N] @ [EvDo (?at ?N)]"
    unfolding io filter_is_Do_rounds by simp
  then have "length (filter is_Do (io_events evs)) = ?N + 1"
    by simp
  then have dos: "length (filter is_Do evs) = ?N + 1"
    unfolding filter_is_Do_io_events .
  have "filter is_Sleep (io_events evs) = replicate ?N (EvSleep (Timeout (options w)))"
    unfolding io filter_is_Sleep_rounds by simp
  then have sleeps: "filter is_Sleep evs = replicate ?N (EvSleep (Timeout (options w)))"
    unfolding filter_is_Sleep_io_events .
  from run evs io dos sleeps show ?thesis
    by blast
qed

theorem fetch_transport_always_fails_witness:
  "fst (fetch (stub_lib (always_fails (Error ''E''))) (client_of default_Options)
          ''GET'' ''https://example.test/down'' [] None world0)
     = Inr (None, Some (Error ''E'')) \<and>
   calls (snd (fetch (stub_lib (always_fails (Error ''E''))) (client_of default_Options)
          ''GET'' ''https://example.test/down'' [] None world0)) = 2 \<and>
   io_events (trace (snd (fetch (stub_lib (always_fails (Error ''E''))) (client_of default_Options)
          ''GET'' ''https://example.test/down'' [] None world0)))
     = [EvDo \<lparr>Method = ''GET'', Request_URL = URL ''https://example.test/down'',
               Request_Header = [], Payload = None\<rparr>,
        EvSleep (60 * Second),
        EvDo \<lparr>Method = ''GET'', Request_URL = URL ''https://example.test/down'',
               Request_Header = [], Payload = None\<rparr>]"
proof -
  let ?L = "stub_lib (always_fails (Error ''E''))"
  let ?w = "client_of default_Options"
  let ?req = "\<lparr>Method = ''GET'', Request_URL = URL ''https://example.test/down'',
               Request_Header = [], Payload = None\<rparr>"
  have 1: "http_NewRequest ?L ''GET'' ''https://example.test/down'' None = Inr ?req"
    by (simp add: stub_lib_def stub_NewRequest_def)
  have 2: "0 \<le> Tries (options ?w)"
    by (simp add: client_of_def default_Options_def)
  have 3: "\<forall>i. snd (fst (client_Do ?L (cl ?w) (resent ?L (cl ?w) (add_params ?L [] ?req) (calls world0) i)
                (calls world0 + i))) \<noteq> None"
    by (simp add: always_fails_def)
  have N: "nat (Tries (options ?w)) = Suc 0" and T: "Timeout (options ?w) = 60 * Second"
    by (simp_all add: client_of_def default_Options_def)
  have a: "add_params ?L [] ?req = ?req"
    by (simp add: add_params_def)
  from fetch_transport_always_fails [OF 1 2 3]
  show ?thesis
    unfolding N T a by (auto simp: world0_def always_fails_def)
qed

text \<open>
  C2: when the first dispatch succeeds and the body reads to its end, fetch returns the
  whole body and a nil error after that one dispatch, whatever \<^verbatim>\<open>Tries\<close> is (nothing is
  assumed of it).
\<close>

theorem fetch_first_attempt_succeeds:
  assumes "http_NewRequest L method path payload = Inr req0"
    and "fst (client_Do L (cl w) (add_params L params req0) (calls wd)) = (Some r, None)"
    and "read_error (Resp_Body r) = None"
  shows "fst (fetch L w method path params payload wd) = Inr (Some (bytes_read (Resp_Body r)), None) \<and>
         calls (snd (fetch L w method path params payload wd)) = calls wd + 1 \<and>
         (\<exists>evs. trace (snd (fetch L w method path params payload wd)) = trace wd @ evs \<and>
            io_events evs = [EvDo (add_params L params req0), EvClose (Resp_Body r)])"
proof -
  let ?req = "add_params L params req0"
  let ?wd0 = "logFetch w [LStr (Method ?req), LStr ''  '', LStr (String (Request_URL ?req)), LStr ''  ''] wd"
  let ?out = "fetch L w method path params payload wd"
  have eq: "?out = retry L w ?req 0 ?wd0"
    by (rule fetch_built [OF assms(1)])
  obtain req' where d: "client_Do L (cl w) ?req (calls ?wd0) = ((Some r, None), req')"
    using assms(2) by (cases "client_Do L (cl w) ?req (calls wd)") simp
  have run: "fst ?out = Inr (Some (bytes_read (Resp_Body r)), None)"
      "calls (snd ?out) = calls wd + 1"
      "io_events (trace (snd ?out)) = io_events (trace wd) @ [EvDo ?req, EvClose (Resp_Body r)]"
    unfolding eq retry_answered [OF d] using assms(3) by simp_all
  obtain evs k where evs: "trace (snd ?out) = trace wd @ evs"
    using fetch_extends [OF assms(1)] by blast
  have "io_events evs = [EvDo ?req, EvClose (Resp_Body r)]"
    by (rule new_io_events [OF evs run(3)])
  with run evs show ?thesis
    by blast
qed

theorem fetch_first_attempt_succeeds_witness:
  "fst (Get (stub_lib (fails_then_answers 0 (Error ''E'')
                    \<lparr>StatusCode = 200, Resp_Body = \<lparr>bytes_read = ''hello'', read_error = None\<rparr>\<rparr>))
       (client_of default_Options) ''https://example.test/ok'' [] world0)
     = Inr (Some ''hello'', None) \<and>
   calls (snd (Get (stub_lib (fails_then_answers 0 (Error ''E'')
                    \<lparr>StatusCode = 200, Resp_Body = \<lparr>bytes_read = ''hello'', read_error = None\<rparr>\<rparr>))
       (client_of default_Options) ''https://example.test/ok'' [] world0)) = 1 \<and>
   io_events (trace (snd (Get (stub_lib (fails_then_answers 0 (Error ''E'')
                    \<lparr>StatusCode = 200, Resp_Body = \<lparr>bytes_read = ''hello'', read_error = None\<rparr>\<rparr>))
       (client_of default_Options) ''https://example.test/ok'' [] world0)))
     = [EvDo \<lparr>Method = ''GET'', Request_URL = URL ''https://example.test/ok'',
               Request_Header = [], Payload = None\<rparr>,
        EvClose \<lparr>bytes_read = ''hello'', read_error = None\<rparr>]"
proof -
  let ?r = "\<lparr>StatusCode = 200, Resp_Body = \<lparr>bytes_read = ''hello'', read_error = None\<rparr>\<rparr>"
  let ?L = "stub_lib (fails_then_answers 0 (Error ''E'') ?r)"
  let ?w = "client_of default_Options"
  let ?req = "\<lparr>Method = ''GET'', Request_URL = URL ''https://example.test/ok'',
               Request_Header = [], Payload = None\<rparr>"
  have 1: "http_NewRequest ?L ''GET'' ''https://example.test/ok'' None = Inr ?req"
    by (simp add: stub_lib_def stub_NewRequest_def)
  have 2: "fst (client_Do ?L (cl ?w) (add_params ?L [] ?req) (calls world0)) = (Some ?r, None)"
    by (simp add: fails_then_answers_def)
  have 3: "read_error (Resp_Body ?r) = None"
    by simp
  have a: "add_params ?L [] ?req = ?req"
    by (simp add: add_params_def)
  from fetch_first_attempt_succeeds [OF 1 2 3]
  show ?thesis
    unfolding a Get_def by (auto simp: world0_def)
qed

lemma fetch_fails_then_answers:
  assumes "http_NewRequest L method path payload = Inr req0"
    and "\<forall>i<k. snd (fst (client_Do L (cl w)
                      (resent L (cl w) (add_params L params req0) (calls wd) i) (calls wd + i))) \<noteq> None"
    and "fst (client_Do L (cl w)
                (resent L (cl w) (add_params L params req0) (calls wd) k) (calls wd + k)) = (Some r, None)"
    and "int k \<le> Tries (options w)"
  shows "fst (fetch L w method path params payload wd) =
           Inr (Some (bytes_read (Resp_Body r)), read_error (Resp_Body r)) \<and>
         calls (snd (fetch L w method path params payload wd)) = calls wd + k + 1 \<and>
         (\<exists>evs. trace (snd (fetch L w method path params payload wd)) = trace wd @ evs \<and>
            io_events evs =
              concat (map (\<lambda>i. [EvDo (resent L (cl w) (add_params L params req0) (calls wd) i),
                                 EvSleep (Timeout (options w))])
                        [0..<k])
                @ [EvDo (resent L (cl w) (add_params L params req0) (calls wd) k),
                   EvClose (Resp_Body r)] \<and>
            length (filter is_Do evs) = k + 1 \<and>
            filter is_Sleep evs = replicate k (EvSleep (Timeout (options w))))"
proof -
  let ?req = "add_params L params req0"
  let ?wd0 = "logFetch w [LStr (Method ?req), LStr ''  '', LStr (String (Request_URL ?req)), LStr ''  ''] wd"
  let ?out = "fetch L w method path params payload wd"
  let ?at = "resent L (cl w) ?req (calls wd)"
  have eq: "?out = retry L w ?req 0 ?wd0"
    by (rule fetch_built [OF assms(1)])
  have 1: "\<forall>i<k. snd (fst (client_Do L (cl w) (resent L (cl w) ?req (calls ?wd0) i) (calls ?wd0 + i))) \<noteq> None"
    using assms(2) by simp
  have 2: "fst (client_Do L (cl w) (resent L (cl w) ?req (calls ?wd0) k) (calls ?wd0 + k)) = (Some r, None)"
    using assms(3) by simp
  have 3: "0 + int k \<le> Tries (options w)"
    using assms(4) by simp
  have run: "fst ?out = Inr (Some (bytes_read (Resp_Body r)), read_error (Resp_Body r))"
      "calls (snd ?out) = calls wd + k + 1"
      "io_events (trace (snd ?out)) = io_events (trace wd) @
         concat (map (\<lambda>i. [EvDo (?at i), EvSleep (Timeout (options w))]) [0..<k])
           @ [EvDo (?at k), EvClose (Resp_Body r)]"
    using retry_fails_then_answers [OF 1 2 3] unfolding eq by simp_all
  obtain evs n where evs: "trace (snd ?out) = trace wd @ evs"
    using fetch_extends [OF assms(1)] by blast
  have io: "io_events evs = concat (map (\<lambda>i. [EvDo (?at i), EvSleep (Timeout (options w))]) [0..<k])
      @ [EvDo (?at k), EvClose (Resp_Body r)]"
    by (rule new_io_events [OF evs run(3)])
  have "filter is_Do (io_events evs) = map (\<lambda>i. EvDo (?at i)) [0..<k] @ [EvDo (?at k)]"
    unfolding io filter_is_Do_rounds by simp
  then have "length (filter is_Do (io_events evs)) = k + 1"
    by simp
  then have dos: "length (filter is_Do evs) = k + 1"
    unfolding filter_is_Do_io_events .
  have "filter is_Sleep (io_events evs) = replicate k (EvSleep (Timeout (options w)))"
    unfolding io filter_is_Sleep_rounds by simp
  then have sleeps: "filter is_Sleep evs = replicate k (EvSleep (Timeout (options w)))"
    unfolding filter_is_Sleep_io_events .
  from run evs io dos sleeps show ?thesis
    by blast
qed

text \<open>
  C3: when the transport fails \<open>k\<close> times and then answers, with \<open>k\<close> within the budget
  \<^verbatim>\<open>Tries\<close>, fetch stops at that first answer: \<open>k + 1\<close> dispatches, \<open>k\<close> sleeps, the body
  of that response and a nil error. The scenario (\<^verbatim>\<open>Tries\<close> = 2, two failures, then the
  body \<^verbatim>\<open>ok\<close>, three dispatches) is the witness.
\<close>

theorem fetch_fails_then_succeeds:
  assumes "http_NewRequest L method path payload = Inr req0"
    and "\<forall>i<k. snd (fst (client_Do L (cl w)
                      (resent L (cl w) (add_params L params req0) (calls wd) i) (calls wd + i))) \<noteq> None"
    and "fst (client_Do L (cl w)
                (resent L (cl w) (add_params L params req0) (calls wd) k) (calls wd + k)) = (Some r, None)"
    and "read_error (Resp_Body r) = None"
    and "int k \<le> Tries (options w)"
  shows "fst (fetch L w method path params payload wd) = Inr (Some (bytes_read (Resp_Body r)), None) \<and>
         calls (snd (fetch L w method path params payload wd)) = calls wd + k + 1 \<and>
         (\<exists>evs. trace (snd (fetch L w method path params payload wd)) = trace wd @ evs \<and>
            io_events evs =
              concat (map (\<lambda>i. [EvDo (resent L (cl w) (add_params L params req0) (calls wd) i),
                                 EvSleep (Timeout (options w))])
                        [0..<k])
                @ [EvDo (resent L (cl w) (add_params L params req0) (calls wd) k),
                   EvClose (Resp_Body r)] \<and>
            length (filter is_Do evs) = k + 1 \<and>
            filter is_Sleep evs = replicate k (EvSleep (Timeout (options w))))"
  using fetch_fails_then_answers [OF assms(1,2,3,5)] assms(4) by simp

theorem fetch_fails_then_succeeds_witness:
  "fst (fetch (stub_lib (fails_then_answers 2 (Error ''E'')
                    \<lparr>StatusCode = 200, Resp_Body = \<lparr>bytes_read = ''ok'', read_error = None\<rparr>\<rparr>))
       (client_of (default_Options\<lparr>Tries := 2\<rparr>)) ''GET'' ''https://example.test/flaky'' [] None world0)
     = Inr (Some ''ok'', None) \<and>
   calls (snd (fetch (stub_lib (fails_then_answers 2 (Error ''E'')
                    \<lparr>StatusCode = 200, Resp_Body = \<lparr>bytes_read = ''ok'', read_error = None\<rparr>\<rparr>))
       (client_of (default_Options\<lparr>Tries := 2\<rparr>)) ''GET'' ''https://example.test/flaky'' [] None world0)) = 3 \<and>
   length (filter is_Do (trace (snd (fetch (stub_lib (fails_then_answers 2 (Error ''E'')
                    \<lparr>StatusCode = 200, Resp_Body = \<lparr>bytes_read = ''ok'', read_error = None\<rparr>\<rparr>))
       (client_of (default_Options\<lparr>Tries := 2\<rparr>)) ''GET'' ''https://example.test/flaky'' [] None world0)))) = 3"
proof -
  let ?r = "\<lparr>StatusCode = 200, Resp_Body = \<lparr>bytes_read = ''ok'', read_error = None\<rparr>\<rparr>"
  let ?L = "stub_lib (fails_then_answers 2 (Error ''E'') ?r)"
  let ?w = "client_of (default_Options\<lparr>Tries := 2\<rparr>)"
  let ?req = "\<lparr>Method = ''GET'', Request_URL = URL ''https://example.test/flaky'',
               Request_Header = [], Payload = None\<rparr>"
  have 1: "http_NewRequest ?L ''GET'' ''https://example.test/flaky'' None = Inr ?req"
    by (simp add: stub_lib_def stub_NewRequest_def)
  have 2: "\<forall>i<2. snd (fst (client_Do ?L (cl ?w)
               (resent ?L (cl ?w) (add_params ?L [] ?req) (calls world0) i) (calls world0 + i))) \<noteq> None"
    by (simp add: fails_then_answers_def world0_def)
  have 3: "fst (client_Do ?L (cl ?w)
               (resent ?L (cl ?w) (add_params ?L [] ?req) (calls world0) 2) (calls world0 + 2)) = (Some ?r, None)"
    by (simp add: fails_then_answers_def)
  have 4: "read_error (Resp_Body ?r) = None"
    by simp
  have 5: "int 2 \<le> Tries (options ?w)"
    by (simp add: client_of_def)
  from fetch_fails_then_succeeds [OF 1 2 3 4 5]
  show ?thesis
    by (auto simp: world0_def)
qed

text \<open>
  C5: when an attempt is answered but reading the body fails, fetch returns the read
  error (with the bytes read so far) at once: the answered dispatch is the last one and
  no sleep follows it, however much of the budget \<^verbatim>\<open>Tries\<close> is left.
\<close>

theorem fetch_read_error_not_retried:
  assumes "http_NewRequest L method path payload = Inr req0"
    and "\<forall>i<k. snd (fst (client_Do L (cl w)
                      (resent L (cl w) (add_params L params req0) (calls wd) i) (calls wd + i))) \<noteq> None"
    and "fst (client_Do L (cl w)
                (resent L (cl w) (add_params L params req0) (calls wd) k) (calls wd + k)) = (Some r, None)"
    and "read_error (Resp_Body r) = Some e"
    and "int k \<le> Tries (options w)"
  shows "fst (fetch L w method path params payload wd) = Inr (Some (bytes_read (Resp_Body r)), Some e) \<and>
         calls (snd (fetch L w method path params payload wd)) = calls wd + k + 1 \<and>
         (\<exists>evs. trace (snd (fetch L w method path params payload wd)) = trace wd @ evs \<and>
            io_events evs =
              concat (map (\<lambda>i. [EvDo (resent L (cl w) (add_params L params req0) (calls wd) i),
                                 EvSleep (Timeout (options w))])
                        [0..<k])
                @ [EvDo (resent L (cl w) (add_params L params req0) (calls wd) k),
                   EvClose (Resp_Body r)] \<and>
            length (filter is_Do evs) = k + 1 \<and>
            filter is_Sleep evs = replicate k (EvSleep (Timeout (options w))))"
  using fetch_fails_then_answers [OF assms(1,2,3,5)] assms(4) by simp

theorem fetch_read_error_not_retried_witness:
  "fst (fetch (stub_lib (fails_then_answers 1 (Error ''E'')
           \<lparr>StatusCode = 200,
              Resp_Body = \<lparr>bytes_read = ''hel'', read_error = Some (Error ''unexpected EOF'')\<rparr>\<rparr>))
       (client_of (default_Options\<lparr>Tries := 5\<rparr>)) ''GET'' ''https://example.test/cut'' [] None world0)
     = Inr (Some ''hel'', Some (Error ''unexpected EOF'')) \<and>
   calls (snd (fetch (stub_lib (fails_then_answers 1 (Error ''E'')
           \<lparr>StatusCode = 200,
              Resp_Body = \<lparr>bytes_read = ''hel'', read_error = Some (Error ''unexpected EOF'')\<rparr>\<rparr>))
       (client_of (default_Options\<lparr>Tries := 5\<rparr>)) ''GET'' ''https://example.test/cut'' [] None world0)) = 2 \<and>
   io_events (trace (snd (fetch (stub_lib (fails_then_answers 1 (Error ''E'')
           \<lparr>StatusCode = 200,
              Resp_Body = \<lparr>bytes_read = ''hel'', read_error = Some (Error ''unexpected EOF'')\<rparr>\<rparr>))
       (client_of (default_Options\<lparr>Tries := 5\<rparr>)) ''GET'' ''https://example.test/cut'' [] None world0)))
     = [EvDo \<lparr>Method = ''GET'', Request_URL = URL ''https://example.test/cut'',
               Request_Header = [], Payload = None\<rparr>,
        EvSleep (60 * Second),
        EvDo \<lparr>Method = ''GET'', Request_URL = URL ''https://example.test/cut'',
               Request_Header = [], Payload = None\<rparr>,
        EvClose \<lparr>bytes_read = ''hel'', read_error = Some (Error ''unexpected EOF'')\<rparr>]"
proof -
  let ?r = "\<lparr>StatusCode = 200,
              Resp_Body = \<lparr>bytes_read = ''hel'', read_error = Some (Error ''unexpected EOF'')\<rparr>\<rparr>"
  let ?L = "stub_lib (fails_then_answers 1 (Error ''E'') ?r)"
  let ?w = "client_of (default_Options\<lparr>Tries := 5\<rparr>)"
  let ?req = "\<lparr>Method = ''GET'', Request_URL = URL ''https://example.test/cut'',
               Request_Header = [], Payload = None\<rparr>"
  have 1: "http_NewRequest ?L ''GET'' ''https://example.test/cut'' None = Inr ?req"
    by (simp add: stub_lib_def stub_NewRequest_def)
  have 2: "\<forall>i<1. snd (fst (client_Do ?L (cl ?w)
               (resent ?L (cl ?w) (add_params ?L [] ?req) (calls world0) i) (calls world0 + i))) \<noteq> None"
    by (simp add: fails_then_answers_def world0_def)
  have 3: "fst (client_Do ?L (cl ?w)
               (resent ?L (cl ?w) (add_params ?L [] ?req) (calls world0) 1) (calls world0 + 1)) = (Some ?r, None)"
    by (simp add: fails_then_answers_def)
  have 4: "read_error (Resp_Body ?r) = Some (Error ''unexpected EOF'')"
    by simp
  have 5: "int 1 \<le> Tries (options ?w)"
    by (simp add: client_of_def)
  have a: "add_params ?L [] ?req = ?req"
    by (simp add: add_params_def)
  have T: "Timeout (options ?w) = 60 * Second"
    by (simp add: client_of_def default_Options_def)
  from fetch_read_error_not_retried [OF 1 2 3 4 5]
  show ?thesis
    unfolding a T by (auto simp: world0_def)
qed

subsection \<open>Headers\<close>







subsection \<open>The two copies of fetch\<close>

lemma retry_part_000_nil_response:
  assumes "client_Do L (cl w) req (calls wd) = ((None, err), req')"
  shows "retry_part_000 L w req tryCount ds wd =
     (Inl NilDereference, run_deferred ds (emit (EvDo req) (wd\<lparr>calls := calls wd + 1\<rparr>)))"
  using assms by (subst retry_part_000.simps) (simp add: Do_def)

lemma fetch_no_panic:
  assumes "http_NewRequest L method path payload = Inr req0"
    and "\<forall>i. fst (client_Do L (cl w) (resent L (cl w) (add_params L params req0) (calls wd) i)
                    (calls wd + i)) \<noteq> (None, None)"
  shows "\<exists>data err. fst (fetch L w method path params payload wd) = Inr (data, err)"
proof -
  let ?req = "add_params L params req0"
  let ?wd0 = "logFetch w [LStr (Method ?req), LStr ''  '', LStr (String (Request_URL ?req)), LStr ''  ''] wd"
  have "\<forall>i. fst (client_Do L (cl w) (resent L (cl w) ?req (calls ?wd0) i) (calls ?wd0 + i)) \<noteq> (None, None)"
    using assms(2) by simp
  then show ?thesis
    unfolding fetch_built [OF assms(1)] by (rule retry_no_panic)
qed

text \<open>
  C4: when the first call of the transport fails and gives no response, the copy of
  fetch in \<^verbatim>\<open>src/unnamed/part_000\<close> dereferences the nil response before it looks at the
  error: it panics right after that one dispatch, with no retry and no sleep. The copy in
  \<^verbatim>\<open>src/brauser.go\<close> looks at the error first and never panics, as long as the
  transport never returns a nil response together with a nil error.
\<close>

theorem part_000_dereferences_before_error_check:
  assumes "http_NewRequest L method path payload = Inr req0"
    and "fst (client_Do L (cl w) (add_params L params req0) (calls wd)) = (None, Some e)"
    and "\<forall>i. fst (client_Do L (cl w) (resent L (cl w) (add_params L params req0) (calls wd) i)
                    (calls wd + i)) \<noteq> (None, None)"
  shows "fst (fetch_part_000 L w method path params payload wd) = Inl NilDereference \<and>
         calls (snd (fetch_part_000 L w method path params payload wd)) = calls wd + 1 \<and>
         (\<exists>evs. trace (snd (fetch_part_000 L w method path params payload wd)) = trace wd @ evs \<and>
            io_events evs = [EvDo (add_params L params req0)]) \<and>
         (\<exists>data err. fst (fetch L w method path params payload wd) = Inr (data, err))"
proof -
  let ?req = "add_params L params req0"
  let ?wd0 = "logFetch w [LStr (Method ?req), LStr ''  '', LStr (String (Request_URL ?req)), LStr ''  ''] wd"
  have eq: "fetch_part_000 L w method path params payload wd = retry_part_000 L w ?req 0 [] ?wd0"
    using assms(1) by (simp add: fetch_part_000_def Let_def)
  obtain req' where d: "client_Do L (cl w) ?req (calls ?wd0) = ((None, Some e), req')"
    using assms(2) by (cases "client_Do L (cl w) ?req (calls wd)") simp
  have "fetch_part_000 L w method path params payload wd =
      (Inl NilDereference, emit (EvDo ?req) (?wd0\<lparr>calls := calls ?wd0 + 1\<rparr>))"
    unfolding eq retry_part_000_nil_response [OF d] by (simp add: run_deferred_def)
  then have "fst (fetch_part_000 L w method path params payload wd) = Inl NilDereference"
    "calls (snd (fetch_part_000 L w method path params payload wd)) = calls wd + 1"
    "trace (snd (fetch_part_000 L w method path params payload wd)) =
       trace wd @ ((if Verbose (options w)
                    then [EvPrintln [LStr (Method ?req), LStr ''  '', LStr (String (Request_URL ?req)),
                                     LStr ''  '']]
                    else []) @ [EvDo ?req])"
    by (simp_all add: trace_logFetch)
  moreover have "io_events ((if Verbose (options w)
                    then [EvPrintln [LStr (Method ?req), LStr ''  '', LStr (String (Request_URL ?req)),
                                     LStr ''  '']]
                    else []) @ [EvDo ?req]) = [EvDo ?req]"
    by (simp add: io_events_def)
  ultimately show ?thesis
    using fetch_no_panic [OF assms(1,3)] by blast
qed

theorem part_000_dereferences_before_error_check_witness:
  "fst (fetch_part_000 (stub_lib (always_fails (Error ''E''))) (client_of default_Options)
          ''GET'' ''https://example.test/down'' [] None world0) = Inl NilDereference \<and>
   calls (snd (fetch_part_000 (stub_lib (always_fails (Error ''E''))) (client_of default_Options)
          ''GET'' ''https://example.test/down'' [] None world0)) = 1 \<and>
   io_events (trace (snd (fetch_part_000 (stub_lib (always_fails (Error ''E''))) (client_of default_Options)
          ''GET'' ''https://example.test/down'' [] None world0)))
     = [EvDo \<lparr>Method = ''GET'', Request_URL = URL ''https://example.test/down'',
               Request_Header = [], Payload = None\<rparr>] \<and>
   (\<exists>data err. fst (fetch (stub_lib (always_fails (Error ''E''))) (client_of default_Options)
          ''GET'' ''https://example.test/down'' [] None world0) = Inr (data, err))"
proof -
  let ?L = "stub_lib (always_fails (Error ''E''))"
  let ?w = "client_of default_Options"
  let ?req = "\<lparr>Method = ''GET'', Request_URL = URL ''https://example.test/down'',
               Request_Header = [], Payload = None\<rparr>"
  have 1: "http_NewRequest ?L ''GET'' ''https://example.test/down'' None = Inr ?req"
    by (simp add: stub_lib_def stub_NewRequest_def)
  have 2: "fst (client_Do ?L (cl ?w) (add_params ?L [] ?req) (calls world0)) = (None, Some (Error ''E''))"
    by (simp add: always_fails_def)
  have 3: "\<forall>i. fst (client_Do ?L (cl ?w) (resent ?L (cl ?w) (add_params ?L [] ?req) (calls world0) i)
                (calls world0 + i)) \<noteq> (None, None)"
    by (simp add: always_fails_def)
  have a: "add_params ?L [] ?req = ?req"
    by (simp add: add_params_def)
  from part_000_dereferences_before_error_check [OF 1 2 3]
  show ?thesis
    unfolding a by (auto simp: world0_def)
qed

subsection \<open>Cookie import and export\<close>

lemma ImportCookies_installs:
  assumes "url_Parse L site = Inr u" and "ioutil_ReadFile L file fs = Inr d"
    and "json_Unmarshal L d = (cookies, None)"
    and "jar_SetCookies L (Jar (cl w)) u cookies = (None, jar')"
  shows "ImportCookies L w file site fs = (Inr None, w\<lparr>cl := (cl w)\<lparr>Jar := jar'\<rparr>\<rparr>)"
  using assms by (simp add: ImportCookies_def)

text \<open>
  What the package itself contributes to an export followed by an import of the same
  file for the same site: the jar is handed to \<^verbatim>\<open>SetCookies\<close> with whatever
  \<^verbatim>\<open>json.Unmarshal\<close> makes of the bytes \<^verbatim>\<open>json.Marshal\<close> produced from \<^verbatim>\<open>Cookies\<close>,
  provided the file reads back as written. Whether the jar then holds an equivalent
  cookie set is a property of the two libraries.
\<close>

lemma export_then_import:
  assumes "ExportCookies L w file site fs = Inr (None, fs')"
    and "\<And>data. ioutil_WriteFile L file data 420 fs = (None, fs') \<Longrightarrow> ioutil_ReadFile L file fs' = Inr data"
  shows "\<exists>u cookies data.
           url_Parse L site = Inr u \<and> jar_Cookies L (Jar (cl w)) u = Inr cookies \<and>
           json_Marshal L cookies = Inr data \<and>
           ImportCookies L w file site fs' =
             (case json_Unmarshal L data of
                (cookies', Some err) \<Rightarrow> (Inr (Some err), w)
              | (cookies', None) \<Rightarrow>
                  (case jar_SetCookies L (Jar (cl w)) u cookies' of
                     (Some p, jar') \<Rightarrow> (Inl p, w\<lparr>cl := (cl w)\<lparr>Jar := jar'\<rparr>\<rparr>)
                   | (None, jar') \<Rightarrow> (Inr None, w\<lparr>cl := (cl w)\<lparr>Jar := jar'\<rparr>\<rparr>)))"
proof -
  from assms(1) obtain u where u: "url_Parse L site = Inr u"
    by (cases "url_Parse L site") (simp_all add: ExportCookies_def)
  from assms(1) u obtain cookies where c: "jar_Cookies L (Jar (cl w)) u = Inr cookies"
    by (cases "jar_Cookies L (Jar (cl w)) u") (simp_all add: ExportCookies_def)
  from assms(1) u c obtain data where m: "json_Marshal L cookies = Inr data"
    by (cases "json_Marshal L cookies") (simp_all add: ExportCookies_def)
  from assms(1) u c m have "ioutil_WriteFile L file data 420 fs = (None, fs')"
    by (cases "ioutil_WriteFile L file data 420 fs")
       (auto simp: ExportCookies_def split: option.splits)
  then have "ioutil_ReadFile L file fs' = Inr data"
    by (rule assms(2))
  with u have "ImportCookies L w file site fs' =
             (case json_Unmarshal L data of
                (cookies', Some err) \<Rightarrow> (Inr (Some err), w)
              | (cookies', None) \<Rightarrow>
                  (case jar_SetCookies L (Jar (cl w)) u cookies' of
                     (Some p, jar') \<Rightarrow> (Inl p, w\<lparr>cl := (cl w)\<lparr>Jar := jar'\<rparr>\<rparr>)
                   | (None, jar') \<Rightarrow> (Inr None, w\<lparr>cl := (cl w)\<lparr>Jar := jar'\<rparr>\<rparr>)))"
    by (simp add: ImportCookies_def split: prod.splits option.splits)
  with u c m show ?thesis
    by blast
qed

text \<open>
  C8, as the code has it: ImportCookies returns the error when \<^verbatim>\<open>url.Parse\<close> rejects
  the site URL, when \<^verbatim>\<open>ioutil.ReadFile\<close> cannot read the file, and when \<^verbatim>\<open>json.Unmarshal\<close>
  rejects its content; and whenever it returns an error the client, and with it the jar,
  is the one it was given: cookies decoded before the error are not installed. Records
  that \<^verbatim>\<open>json.Unmarshal\<close> accepts go to \<^verbatim>\<open>SetCookies\<close> unchecked.
\<close>

theorem ImportCookies_errors:
  "(\<forall>e. url_Parse L site = Inl e \<longrightarrow> ImportCookies L w file site fs = (Inr (Some e), w)) \<and>
   (\<forall>u e. url_Parse L site = Inr u \<and> ioutil_ReadFile L file fs = Inl e \<longrightarrow>
      ImportCookies L w file site fs = (Inr (Some e), w)) \<and>
   (\<forall>u d cookies e.
      url_Parse L site = Inr u \<and> ioutil_ReadFile L file fs = Inr d \<and>
      json_Unmarshal L d = (cookies, Some e) \<longrightarrow>
      ImportCookies L w file site fs = (Inr (Some e), w)) \<and>
   (\<forall>e w'. ImportCookies L w file site fs = (Inr (Some e), w') \<longrightarrow> w' = w)"
proof (intro conjI allI impI)
  fix e assume "url_Parse L site = Inl e"
  then show "ImportCookies L w file site fs = (Inr (Some e), w)"
    by (simp add: ImportCookies_def)
next
  fix u e assume "url_Parse L site = Inr u \<and> ioutil_ReadFile L file fs = Inl e"
  then show "ImportCookies L w file site fs = (Inr (Some e), w)"
    by (simp add: ImportCookies_def)
next
  fix u d cookies e
  assume "url_Parse L site = Inr u \<and> ioutil_ReadFile L file fs = Inr d \<and>
      json_Unmarshal L d = (cookies, Some e)"
  then show "ImportCookies L w file site fs = (Inr (Some e), w)"
    by (simp add: ImportCookies_def)
next
  fix e w' assume "ImportCookies L w file site fs = (Inr (Some e), w')"
  then show "w' = w"
    by (auto simp: ImportCookies_def split: sum.splits prod.splits option.splits)
qed

theorem ImportCookies_errors_witness:
  "ImportCookies (stub_lib (always_fails (Error ''E''))) (client_of default_Options)
      ''cookies.json'' '':bad'' [(''broken.json'', ''{''), (''cookies.json'', ''[a]'')]
     = (Inr (Some (Error ''missing protocol scheme'')), client_of default_Options) \<and>
   ImportCookies (stub_lib (always_fails (Error ''E''))) (client_of default_Options)
      ''missing.json'' ''https://example.test'' [(''broken.json'', ''{''), (''cookies.json'', ''[a]'')]
     = (Inr (Some (Error ''no such file or directory'')), client_of default_Options) \<and>
   ImportCookies (stub_lib (always_fails (Error ''E''))) (client_of default_Options)
      ''broken.json'' ''https://example.test'' [(''broken.json'', ''{''), (''cookies.json'', ''[a]'')]
     = (Inr (Some (Error ''invalid character'')), client_of default_Options) \<and>
   ImportCookies (stub_lib (always_fails (Error ''E''))) (client_of default_Options)
      ''cookies.json'' ''https://example.test'' [(''broken.json'', ''{''), (''cookies.json'', ''[a]'')]
     = (Inr None, client_holding [''a''] default_Options)"
proof -
  let ?L = "stub_lib (always_fails (Error ''E''))"
  let ?w = "client_of default_Options"
  let ?fs = "[(''broken.json'', ''{''), (''cookies.json'', ''[a]'')]"
  have bad_url: "url_Parse ?L '':bad'' = Inl (Error ''missing protocol scheme'')"
    by (simp add: stub_lib_def stub_url_Parse_def)
  have url: "url_Parse ?L ''https://example.test'' = Inr (URL ''https://example.test'')"
    by (simp add: stub_lib_def stub_url_Parse_def)
  have missing: "ioutil_ReadFile ?L ''missing.json'' ?fs = Inl (Error ''no such file or directory'')"
    by (simp add: stub_lib_def stub_ReadFile_def)
  have broken: "ioutil_ReadFile ?L ''broken.json'' ?fs = Inr ''{''"
    by (simp add: stub_lib_def stub_ReadFile_def)
  have malformed: "json_Unmarshal ?L ''{'' = ([], Some (Error ''invalid character''))"
    by (simp add: stub_lib_def stub_Unmarshal_def)
  have good: "ioutil_ReadFile ?L ''cookies.json'' ?fs = Inr ''[a]''"
    by (simp add: stub_lib_def stub_ReadFile_def)
  have decoded: "json_Unmarshal ?L ''[a]'' = ([Some ''a''], None)"
    by (simp add: stub_lib_def stub_Unmarshal_def)
  have jar: "jar_SetCookies ?L (Jar (cl ?w)) (URL ''https://example.test'') [Some ''a''] = (None, Some [''a''])"
    by (simp add: stub_lib_def stub_SetCookies_def client_of_def)
  have 1: "ImportCookies ?L ?w ''cookies.json'' '':bad'' ?fs
      = (Inr (Some (Error ''missing protocol scheme'')), ?w)"
    using ImportCookies_errors [of ?L "'':bad''" ?w "''cookies.json''" ?fs] bad_url by blast
  have 2: "ImportCookies ?L ?w ''missing.json'' ''https://example.test'' ?fs
      = (Inr (Some (Error ''no such file or directory'')), ?w)"
    using ImportCookies_errors [of ?L "''https://example.test''" ?w "''missing.json''" ?fs] url missing by blast
  have 3: "ImportCookies ?L ?w ''broken.json'' ''https://example.test'' ?fs
      = (Inr (Some (Error ''invalid character'')), ?w)"
    using ImportCookies_errors [of ?L "''https://example.test''" ?w "''broken.json''" ?fs] url broken malformed by blast
  have 4: "ImportCookies ?L ?w ''cookies.json'' ''https://example.test'' ?fs
      = (Inr None, client_holding [''a''] default_Options)"
    unfolding ImportCookies_installs [OF url good decoded jar] by (simp add: client_holding_def)
  from 1 2 3 4 show ?thesis
    by blast
qed

text \<open>
  The claim C8 as the specification words it fails on a file whose records decode but
  are not all cookies: the second record of \<^verbatim>\<open>[a,null]\<close> is null. \<^verbatim>\<open>json.Unmarshal\<close>
  accepts the file, ImportCookies returns no error but panics inside \<^verbatim>\<open>SetCookies\<close>,
  and the jar, which held \<^verbatim>\<open>b\<close>, is left holding \<^verbatim>\<open>b\<close> and the first record \<^verbatim>\<open>a\<close>.
\<close>

theorem ImportCookies_null_record_panics:
  "json_Unmarshal (stub_lib (always_fails (Error ''E''))) ''[a,null]'' = ([Some ''a'', None], None) \<and>
   ImportCookies (stub_lib (always_fails (Error ''E''))) (client_holding [''b''] default_Options)
      ''two.json'' ''https://example.test'' [(''two.json'', ''[a,null]'')]
     = (Inl NilDereference, client_holding [''b'', ''a''] default_Options)"
proof -
  let ?L = "stub_lib (always_fails (Error ''E''))"
  have "ImportCookies ?L (client_holding [''b''] default_Options)
      ''two.json'' ''https://example.test'' [(''two.json'', ''[a,null]'')]
     = (Inl NilDereference, client_holding [''b'', ''a''] default_Options)"
    by (simp add: ImportCookies_def stub_lib_def stub_url_Parse_def stub_ReadFile_def
        stub_Unmarshal_def stub_SetCookies_def client_holding_def client_of_def)
  then show ?thesis
    by (simp add: stub_lib_def stub_Unmarshal_def)
qed

end
